theory Spec2Isabelle
  imports Complex_Main "HOL-Library.AList"
begin

section \<open>Documents and collections\<close>

text \<open>
  The backend stores five kinds of documents in a document store. An ObjectId and its
  hexadecimal rendering (\<open>toString()\<close>) are identified, so the comparisons
  \<open>doc.field.toString() === req.user.id\<close> of the controllers are equalities on
  \<open>objectId\<close>. Dates are milliseconds since the epoch. A collection is an association
  list in insertion order (the store's natural order); \<open>findById\<close> is \<open>map_of\<close>.
\<close>

type_synonym objectId = nat
type_synonym date = nat

record user =
  user_name :: string
  user_email :: string
  user_password :: string
  user_role :: string
  user_teams :: "objectId list"

record membership =
  member_user :: objectId
  member_role :: string
  member_joinedAt :: date

record team =
  team_name :: string
  team_description :: "string option"
  team_owner :: objectId
  team_members :: "membership list"
  team_createdAt :: date

record task =
  task_title :: string
  task_description :: "string option"
  task_status :: string
  task_priority :: string
  task_dueDate :: "date option"
  task_createdBy :: objectId
  task_assignedTo :: "objectId option"
  task_team :: "objectId option"
  task_tags :: "string list"
  task_attachments :: "objectId list"
  task_comments :: "objectId list"
  task_createdAt :: date
  task_updatedAt :: date
  task_completedAt :: "date option"

record comment_doc =
  comment_content :: string
  comment_task :: objectId
  comment_author :: objectId
  comment_createdAt :: date
  comment_updatedAt :: date

record attachment =
  attachment_filename :: string
  attachment_originalName :: string
  attachment_mimetype :: string
  attachment_size :: nat
  attachment_path :: string
  attachment_task :: objectId
  attachment_uploadedBy :: objectId
  attachment_createdAt :: date

record db =
  users :: "(objectId \<times> user) list"
  teams :: "(objectId \<times> team) list"
  tasks :: "(objectId \<times> task) list"
  comments :: "(objectId \<times> comment_doc) list"
  attachments :: "(objectId \<times> attachment) list"

text \<open>\<open>req.user\<close>, as the authentication middleware attaches it to a request.\<close>

record caller =
  caller_id :: objectId
  caller_role :: string

text \<open>
  The response envelope: \<open>res.status(n).json({success: true, data})\<close>,
  \<open>res.status(n).json({success: true, message})\<close> and
  \<open>res.status(n).json({success: false, message})\<close>.
\<close>

datatype 'a response = Success nat 'a | SuccessMessage nat string | Failure nat string

fun status_code :: "'a response \<Rightarrow> nat" where
  "status_code (Success n _) = n"
| "status_code (SuccessMessage n _) = n"
| "status_code (Failure n _) = n"

text \<open>The \<open>data\<close> of a response, when it has one.\<close>

fun dataOf :: "'a response \<Rightarrow> 'a option" where
  "dataOf (Success _ v) = Some v"
| "dataOf (SuccessMessage _ _) = None"
| "dataOf (Failure _ _) = None"

subsection \<open>Schema setters and populate\<close>

definition isSpace :: "char \<Rightarrow> bool" where
  "isSpace c = (c \<in> set [CHR '' '', CHR 0x09, CHR 0x0A, CHR 0x0B, CHR 0x0C, CHR 0x0D])"

text \<open>The \<open>trim: true\<close> setter of the schemas.\<close>

definition trim :: "string \<Rightarrow> string" where
  "trim s = rev (dropWhile isSpace (rev (dropWhile isSpace s)))"

text \<open>\<open>.populate(path, 'name email')\<close>: the referenced user, or null when it is gone.\<close>

record userRef =
  ref_id :: objectId
  ref_name :: string
  ref_email :: string

definition populateUser :: "db \<Rightarrow> objectId \<Rightarrow> userRef option" where
  "populateUser d uid =
     map_option (\<lambda>u. \<lparr>ref_id = uid, ref_name = user_name u, ref_email = user_email u\<rparr>)
       (map_of (users d) uid)"

section \<open>Teams (models/Team.js, controllers/teamController.js)\<close>

definition teamRoles :: "string list" where
  "teamRoles = [''owner'', ''admin'', ''member'']"

text \<open>Schema validation of a team: \<open>name\<close> is required, member roles are in the enum.\<close>

definition validateTeam :: "team \<Rightarrow> bool" where
  "validateTeam t =
     (team_name t \<noteq> [] \<and> list_all (\<lambda>m. member_role m \<in> set teamRoles) (team_members t))"

text \<open>\<open>teamSchema.pre('save')\<close>: a new team gets its owner as an \<open>owner\<close> member.\<close>

definition teamPreSave :: "bool \<Rightarrow> date \<Rightarrow> team \<Rightarrow> team" where
  "teamPreSave isNew now t =
     (if isNew then
        (let ownerExists = list_ex (\<lambda>m. member_user m = team_owner t) (team_members t) in
         if \<not> ownerExists then
           t\<lparr>team_members := team_members t @
               [\<lparr>member_user = team_owner t, member_role = ''owner'', member_joinedAt = now\<rparr>]\<rparr>
         else t)
      else t)"

text \<open>
  \<open>doc.save()\<close>: validation runs first and rejects with a ValidationError; then the
  pre-save hook; then the document is inserted (a new one, whose id must be unused) or
  replaced.
\<close>

definition teamSave :: "bool \<Rightarrow> date \<Rightarrow> objectId \<Rightarrow> team \<Rightarrow> db \<Rightarrow> string + db" where
  "teamSave isNew now tid t d =
     (if \<not> validateTeam t then Inl ''Team validation failed''
      else
        let t' = teamPreSave isNew now t in
        if isNew then
          (if map_of (teams d) tid \<noteq> None then Inl ''E11000 duplicate key error''
           else Inr (d\<lparr>teams := teams d @ [(tid, t')]\<rparr>))
        else Inr (d\<lparr>teams := AList.update tid t' (teams d)\<rparr>))"

text \<open>\<open>User.findByIdAndUpdate(uid, {$push: {teams: tid}})\<close> and its \<open>$pull\<close> twin.\<close>

definition pushTeam :: "objectId \<Rightarrow> objectId \<Rightarrow> (objectId \<times> user) list \<Rightarrow> (objectId \<times> user) list" where
  "pushTeam uid tid us =
     map (\<lambda>(i, u). if i = uid then (i, u\<lparr>user_teams := user_teams u @ [tid]\<rparr>) else (i, u)) us"



record teamView =
  view_team :: team
  view_owner :: "userRef option"
  view_members :: "(membership \<times> userRef option) list"

text \<open>
  \<open>Team.findById(id).populate('owner', 'name email').populate('members.user', 'name email')\<close>
\<close>

definition findTeamPopulated :: "db \<Rightarrow> objectId \<Rightarrow> teamView option" where
  "findTeamPopulated d tid =
     map_option
       (\<lambda>t. \<lparr>view_team = t, view_owner = populateUser d (team_owner t),
             view_members = map (\<lambda>m. (m, populateUser d (member_user m))) (team_members t)\<rparr>)
       (map_of (teams d) tid)"

text \<open>The membership-role test that updateTeam, addMember and removeMember repeat.\<close>

definition isOwnerOrAdmin :: "team \<Rightarrow> caller \<Rightarrow> bool" where
  "isOwnerOrAdmin t c =
     list_ex (\<lambda>m. member_user m = caller_id c \<and>
                  (member_role m = ''owner'' \<or> member_role m = ''admin'')) (team_members t)"




record memberBody =
  body_userId :: objectId
  body_role :: "string option"

definition addMember ::
  "db \<Rightarrow> caller \<Rightarrow> objectId \<Rightarrow> memberBody \<Rightarrow> date \<Rightarrow> teamView option response \<times> db" where
  "addMember d c tid body now =
     (let userId = body_userId body;
          role = (case body_role body of None \<Rightarrow> ''member'' | Some r \<Rightarrow> r) in
      case map_of (teams d) tid of
        None \<Rightarrow> (Failure 404 ''Team not found'', d)
      | Some t \<Rightarrow>
          if \<not> isOwnerOrAdmin t c \<and> caller_role c \<noteq> ''admin'' then
            (Failure 403 ''Not authorized to add members to this team'', d)
          else
            (case map_of (users d) userId of
               None \<Rightarrow> (Failure 404 ''User not found'', d)
             | Some u \<Rightarrow>
                 if list_ex (\<lambda>m. member_user m = userId) (team_members t) then
                   (Failure 400 ''User is already a member of this team'', d)
                 else
                   (let t' = t\<lparr>team_members := team_members t @
                               [\<lparr>member_user = userId, member_role = role,
                                 member_joinedAt = now\<rparr>]\<rparr> in
                    case teamSave False now tid t' d of
                      Inl err \<Rightarrow> (Failure 500 err, d)
                    | Inr d1 \<Rightarrow>
                        (let d2 = d1\<lparr>users := pushTeam userId tid (users d1)\<rparr> in
                         (Success 200 (findTeamPopulated d2 tid), d2)))))"



section \<open>Tasks (models/Task.js, controllers/taskController.js)\<close>

definition taskStatuses :: "string list" where
  "taskStatuses = [''open'', ''in-progress'', ''completed'', ''cancelled'']"

definition taskPriorities :: "string list" where
  "taskPriorities = [''low'', ''medium'', ''high'', ''urgent'']"

definition validateTask :: "task \<Rightarrow> bool" where
  "validateTask t =
     (task_title t \<noteq> [] \<and> task_status t \<in> set taskStatuses \<and>
      task_priority t \<in> set taskPriorities)"

text \<open>
  \<open>taskSchema.pre('save')\<close>. \<open>statusModified\<close> is \<open>this.isModified('status')\<close>: the
  status differs from the stored one. Every \<open>Date.now()\<close> of one request reads the
  request's clock value \<open>now\<close>.
\<close>

definition taskPreSave :: "date \<Rightarrow> bool \<Rightarrow> task \<Rightarrow> task" where
  "taskPreSave now statusModified t =
     (let t1 = t\<lparr>task_updatedAt := now\<rparr> in
      if statusModified \<and> task_status t1 = ''completed'' \<and> task_completedAt t1 = None
      then t1\<lparr>task_completedAt := Some now\<rparr>
      else t1)"

definition taskSave :: "date \<Rightarrow> bool \<Rightarrow> objectId \<Rightarrow> task \<Rightarrow> db \<Rightarrow> string + db" where
  "taskSave now statusModified tid t d =
     (if \<not> validateTask t then Inl ''Task validation failed''
      else Inr (d\<lparr>tasks := AList.update tid (taskPreSave now statusModified t) (tasks d)\<rparr>))"

record taskView =
  tview_id :: objectId
  tview_task :: task
  tview_createdBy :: "userRef option"
  tview_assignedTo :: "userRef option"
  tview_team :: "(objectId \<times> string) option"

text \<open>
  \<open>.populate('createdBy', 'name email').populate('assignedTo', 'name email')
  .populate('team', 'name')\<close>
\<close>

definition populateTask :: "db \<Rightarrow> objectId \<times> task \<Rightarrow> taskView" where
  "populateTask d it =
     (case it of (i, t) \<Rightarrow>
        \<lparr>tview_id = i, tview_task = t,
         tview_createdBy = populateUser d (task_createdBy t),
         tview_assignedTo = Option.bind (task_assignedTo t) (populateUser d),
         tview_team = Option.bind (task_team t)
                        (\<lambda>tid. map_option (\<lambda>tm. (tid, team_name tm)) (map_of (teams d) tid))\<rparr>)"

definition findTaskPopulated :: "db \<Rightarrow> objectId \<Rightarrow> taskView option" where
  "findTaskPopulated d tid = map_option (\<lambda>t. populateTask d (tid, t)) (map_of (tasks d) tid)"

record taskDetail = taskView +
  detail_comments :: "(objectId \<times> comment_doc \<times> userRef option) list"
  detail_attachments :: "(objectId \<times> attachment \<times> userRef option) list"

text \<open>
  The two nested populates of \<open>getTask\<close>: each referenced comment with its author, each
  referenced attachment with its uploader; a reference whose document is gone is dropped.
\<close>

definition populateComments :: "db \<Rightarrow> objectId list \<Rightarrow> (objectId \<times> comment_doc \<times> userRef option) list" where
  "populateComments d ids =
     List.map_filter
       (\<lambda>i. map_option (\<lambda>cm. (i, cm, populateUser d (comment_author cm))) (map_of (comments d) i))
       ids"

definition populateAttachments :: "db \<Rightarrow> objectId list \<Rightarrow> (objectId \<times> attachment \<times> userRef option) list" where
  "populateAttachments d ids =
     List.map_filter
       (\<lambda>i. map_option (\<lambda>a. (i, a, populateUser d (attachment_uploadedBy a)))
              (map_of (attachments d) i))
       ids"

definition getTask :: "db \<Rightarrow> caller \<Rightarrow> objectId \<Rightarrow> taskDetail response" where
  "getTask d c tid =
     (case map_of (tasks d) tid of
        None \<Rightarrow> Failure 404 ''Task not found''
      | Some t \<Rightarrow>
          Success 200
            (taskView.extend (populateTask d (tid, t))
               (taskDetail.fields (populateComments d (task_comments t))
                  (populateAttachments d (task_attachments t)))))"

text \<open>
  The body of \<open>PUT /api/tasks/:id\<close>: any path of the task schema may be present, with a
  value of the path's type. \<open>findByIdAndUpdate(id, req.body, {new: true, runValidators: true})\<close>
  sets every path that is present; it runs the validators of those paths and no save hook.
\<close>

record taskBody =
  upd_title :: "string option"
  upd_description :: "string option"
  upd_status :: "string option"
  upd_priority :: "string option"
  upd_dueDate :: "date option"
  upd_createdBy :: "objectId option"
  upd_assignedTo :: "objectId option"
  upd_team :: "objectId option"
  upd_tags :: "string list option"
  upd_attachments :: "objectId list option"
  upd_comments :: "objectId list option"
  upd_createdAt :: "date option"
  upd_updatedAt :: "date option"
  upd_completedAt :: "date option"

definition validateUpdate :: "taskBody \<Rightarrow> bool" where
  "validateUpdate body =
     ((case upd_title body of None \<Rightarrow> True | Some s \<Rightarrow> trim s \<noteq> []) \<and>
      (case upd_status body of None \<Rightarrow> True | Some s \<Rightarrow> s \<in> set taskStatuses) \<and>
      (case upd_priority body of None \<Rightarrow> True | Some s \<Rightarrow> s \<in> set taskPriorities))"

definition applyUpdate :: "taskBody \<Rightarrow> task \<Rightarrow> task" where
  "applyUpdate body t =
     \<lparr>task_title = (case upd_title body of None \<Rightarrow> task_title t | Some s \<Rightarrow> trim s),
      task_description = (case upd_description body of None \<Rightarrow> task_description t
                          | Some s \<Rightarrow> Some (trim s)),
      task_status = (case upd_status body of None \<Rightarrow> task_status t | Some s \<Rightarrow> s),
      task_priority = (case upd_priority body of None \<Rightarrow> task_priority t | Some s \<Rightarrow> s),
      task_dueDate = (case upd_dueDate body of None \<Rightarrow> task_dueDate t | Some x \<Rightarrow> Some x),
      task_createdBy = (case upd_createdBy body of None \<Rightarrow> task_createdBy t | Some u \<Rightarrow> u),
      task_assignedTo = (case upd_assignedTo body of None \<Rightarrow> task_assignedTo t
                         | Some u \<Rightarrow> Some u),
      task_team = (case upd_team body of None \<Rightarrow> task_team t | Some x \<Rightarrow> Some x),
      task_tags = (case upd_tags body of None \<Rightarrow> task_tags t | Some xs \<Rightarrow> map trim xs),
      task_attachments = (case upd_attachments body of None \<Rightarrow> task_attachments t
                          | Some xs \<Rightarrow> xs),
      task_comments = (case upd_comments body of None \<Rightarrow> task_comments t | Some xs \<Rightarrow> xs),
      task_createdAt = (case upd_createdAt body of None \<Rightarrow> task_createdAt t | Some x \<Rightarrow> x),
      task_updatedAt = (case upd_updatedAt body of None \<Rightarrow> task_updatedAt t | Some x \<Rightarrow> x),
      task_completedAt = (case upd_completedAt body of None \<Rightarrow> task_completedAt t
                          | Some x \<Rightarrow> Some x)\<rparr>"

definition updateTask ::
  "db \<Rightarrow> caller \<Rightarrow> objectId \<Rightarrow> taskBody \<Rightarrow> taskView option response \<times> db" where
  "updateTask d c tid body =
     (case map_of (tasks d) tid of
        None \<Rightarrow> (Failure 404 ''Task not found'', d)
      | Some t \<Rightarrow>
          if task_createdBy t \<noteq> caller_id c \<and>
             task_assignedTo t \<noteq> Some (caller_id c) \<and>
             caller_role c \<noteq> ''admin'' then
            (Failure 403 ''Not authorized to update this task'', d)
          else if \<not> validateUpdate body then
            (Failure 500 ''Validation failed'', d)
          else
            (let d' = d\<lparr>tasks := AList.update tid (applyUpdate body t) (tasks d)\<rparr> in
             (Success 200 (findTaskPopulated d' tid), d')))"

definition completeTask ::
  "db \<Rightarrow> caller \<Rightarrow> objectId \<Rightarrow> date \<Rightarrow> taskView option response \<times> db" where
  "completeTask d c tid now =
     (case map_of (tasks d) tid of
        None \<Rightarrow> (Failure 404 ''Task not found'', d)
      | Some t \<Rightarrow>
          if task_assignedTo t \<noteq> Some (caller_id c) \<and>
             task_createdBy t \<noteq> caller_id c \<and>
             caller_role c \<noteq> ''admin'' then
            (Failure 403 ''Not authorized to complete this task'', d)
          else
            (let t' = t\<lparr>task_status := ''completed'', task_completedAt := Some now\<rparr> in
             case taskSave now (task_status t \<noteq> ''completed'') tid t' d of
               Inl err \<Rightarrow> (Failure 500 err, d)
             | Inr d' \<Rightarrow> (Success 200 (findTaskPopulated d' tid), d')))"

definition deleteTask :: "db \<Rightarrow> caller \<Rightarrow> objectId \<Rightarrow> unit response \<times> db" where
  "deleteTask d c tid =
     (case map_of (tasks d) tid of
        None \<Rightarrow> (Failure 404 ''Task not found'', d)
      | Some t \<Rightarrow>
          if task_createdBy t \<noteq> caller_id c \<and> caller_role c \<noteq> ''admin'' then
            (Failure 403 ''Not authorized to delete this task'', d)
          else
            (SuccessMessage 200 ''Task deleted successfully'',
             d\<lparr>tasks := AList.delete tid (tasks d)\<rparr>))"

subsection \<open>Listing tasks\<close>





text \<open>\<open>if (param)\<close> on a string parameter: the empty string is falsy.\<close>

definition truthy :: "string option \<Rightarrow> string option" where
  "truthy x = (case x of None \<Rightarrow> None | Some s \<Rightarrow> if s = [] then None else Some s)"











section \<open>Login (controllers/authController.js)\<close>

record loginBody =
  login_email :: "string option"
  login_password :: "string option"

record loginUser =
  lu_id :: objectId
  lu_name :: string
  lu_email :: string
  lu_role :: string

record loginData =
  data_user :: loginUser
  data_token :: string

text \<open>
  \<open>login\<close>. The password check \<open>user.comparePassword\<close> (a method of the User model) and the
  token signer \<open>generateToken\<close> (JSON Web Token library) are parameters.
  \<open>User.findOne({email})\<close> is the first user with that email.
\<close>

definition login ::
  "(user \<Rightarrow> string \<Rightarrow> bool) \<Rightarrow> (objectId \<Rightarrow> string) \<Rightarrow> db \<Rightarrow> loginBody \<Rightarrow> loginData response" where
  "login comparePassword generateToken d body =
     (case truthy (login_email body) of
        None \<Rightarrow> Failure 400 ''Please provide email and password''
      | Some email \<Rightarrow>
          (case truthy (login_password body) of
             None \<Rightarrow> Failure 400 ''Please provide email and password''
           | Some password \<Rightarrow>
               (case find (\<lambda>iu. user_email (snd iu) = email) (users d) of
                  None \<Rightarrow> Failure 401 ''Invalid credentials''
                | Some (i, u) \<Rightarrow>
                    if \<not> comparePassword u password then Failure 401 ''Invalid credentials''
                    else
                      Success 200
                        \<lparr>data_user = \<lparr>lu_id = i, lu_name = user_name u, lu_email = user_email u,
                                       lu_role = user_role u\<rparr>,
                         data_token = generateToken i\<rparr>)))"

section \<open>A small database for the concrete instances\<close>

definition alice :: user where
  "alice = \<lparr>user_name = ''Alice'', user_email = ''alice@example.com'',
            user_password = ''hash-a'', user_role = ''user'', user_teams = [10]\<rparr>"

definition bob :: user where
  "bob = \<lparr>user_name = ''Bob'', user_email = ''bob@example.com'',
          user_password = ''hash-b'', user_role = ''user'', user_teams = [10]\<rparr>"

definition carol :: user where
  "carol = \<lparr>user_name = ''Carol'', user_email = ''carol@example.com'',
            user_password = ''hash-c'', user_role = ''user'', user_teams = []\<rparr>"

definition dave :: user where
  "dave = \<lparr>user_name = ''Dave'', user_email = ''dave@example.com'',
           user_password = ''hash-d'', user_role = ''admin'', user_teams = []\<rparr>"

definition exTeam :: team where
  "exTeam = \<lparr>team_name = ''Backend'', team_description = None, team_owner = 1,
             team_members = [\<lparr>member_user = 1, member_role = ''owner'', member_joinedAt = 500\<rparr>,
                             \<lparr>member_user = 2, member_role = ''member'', member_joinedAt = 600\<rparr>],
             team_createdAt = 500\<rparr>"

definition exTask :: task where
  "exTask = \<lparr>task_title = ''Write report'', task_description = None, task_status = ''open'',
             task_priority = ''medium'', task_dueDate = None, task_createdBy = 1,
             task_assignedTo = Some 2, task_team = Some 10, task_tags = [],
             task_attachments = [300], task_comments = [200], task_createdAt = 700,
             task_updatedAt = 700, task_completedAt = None\<rparr>"

definition exTask2 :: task where
  "exTask2 = exTask\<lparr>task_title := ''Fix login'', task_createdBy := 2, task_createdAt := 800,
                     task_updatedAt := 800\<rparr>"

definition exComment :: comment_doc where
  "exComment = \<lparr>comment_content = ''Draft attached'', comment_task = 100, comment_author = 2,
                comment_createdAt = 750, comment_updatedAt = 750\<rparr>"

definition exAttachment :: attachment where
  "exAttachment = \<lparr>attachment_filename = ''file-1.pdf'', attachment_originalName = ''draft.pdf'',
                   attachment_mimetype = ''application/pdf'', attachment_size = 1024,
                   attachment_path = ''uploads/file-1.pdf'', attachment_task = 100,
                   attachment_uploadedBy = 2, attachment_createdAt = 760\<rparr>"

definition exDb :: db where
  "exDb = \<lparr>users = [(1, alice), (2, bob), (3, carol), (4, dave)], teams = [(10, exTeam)],
           tasks = [(100, exTask), (101, exTask2)], comments = [(200, exComment)],
           attachments = [(300, exAttachment)]\<rparr>"

text \<open>A body with no field, a query with no parameter.\<close>

definition emptyBody :: taskBody where
  "emptyBody = \<lparr>upd_title = None, upd_description = None, upd_status = None,
     upd_priority = None, upd_dueDate = None, upd_createdBy = None, upd_assignedTo = None,
     upd_team = None, upd_tags = None, upd_attachments = None, upd_comments = None,
     upd_createdAt = None, upd_updatedAt = None, upd_completedAt = None\<rparr>"





definition exCompare :: "user \<Rightarrow> string \<Rightarrow> bool" where
  "exCompare u p = (user_password u = ''hash-'' @ p)"

definition exToken :: "objectId \<Rightarrow> string" where
  "exToken i = ''token-'' @ replicate i (CHR ''i'')"




definition unknownLogin :: loginBody where
  "unknownLogin = \<lparr>login_email = Some ''zed@example.com'', login_password = Some ''b''\<rparr>"

definition wrongLogin :: loginBody where
  "wrongLogin = \<lparr>login_email = Some ''bob@example.com'', login_password = Some ''x''\<rparr>"


definition completedAtOf :: "db \<Rightarrow> objectId \<Rightarrow> date option option" where
  "completedAtOf d tid = map_option task_completedAt (map_of (tasks d) tid)"

definition asAlice :: caller where "asAlice = \<lparr>caller_id = 1, caller_role = ''user''\<rparr>"
definition asBob :: caller where "asBob = \<lparr>caller_id = 2, caller_role = ''user''\<rparr>"
definition asCarol :: caller where "asCarol = \<lparr>caller_id = 3, caller_role = ''user''\<rparr>"
definition asDave :: caller where "asDave = \<lparr>caller_id = 4, caller_role = ''admin''\<rparr>"




section \<open>Reachable states of the team collection\<close>




section \<open>Properties of the team operations\<close>

lemmas ex_defs = alice_def bob_def carol_def dave_def exTeam_def exTask_def exTask2_def exDb_def
  asAlice_def asBob_def asCarol_def asDave_def exComment_def exAttachment_def




















lemma map_of_update_same: "map_of (AList.update k v al) k = Some v"
  by (simp add: AList.update_conv')


lemma addMember_unknown_role_rejected:
  "addMember exDb asAlice 10 \<lparr>body_userId = 3, body_role = Some ''boss''\<rparr> 900 =
     (Failure 500 ''Team validation failed'', exDb)"
  by (simp add: addMember_def ex_defs teamSave_def validateTeam_def teamRoles_def
      isOwnerOrAdmin_def Let_def)




section \<open>Properties of the task operations\<close>

lemma exDb_task: "map_of (tasks exDb) 100 = Some exTask"
  by (simp add: exDb_def)

text \<open>
  After an authorized completeTask on a valid task, \<open>completedAt\<close> is the clock value of
  that very request, whatever it was before.
\<close>

lemma completeTask_sets_completedAt:
  assumes "map_of (tasks d) tid = Some t"
    and "task_assignedTo t = Some (caller_id c) \<or> task_createdBy t = caller_id c \<or> caller_role c = ''admin''"
    and "validateTask t"
  shows "completedAtOf (snd (completeTask d c tid now)) tid = Some (Some now)"
  using assms
  by (auto simp: completeTask_def completedAtOf_def taskSave_def taskPreSave_def validateTask_def
      taskStatuses_def Let_def map_of_update_same)

text \<open>
  C1. The claim says a second completeTask leaves \<open>completedAt\<close> at its first value. The
  controller assigns \<open>task.completedAt = Date.now()\<close> on every call, before the pre-save
  hook whose guard \<open>!this.completedAt\<close> would have kept the first value: Bob completes task
  100 at time 1000 and again at time 2000, and \<open>completedAt\<close> moves from 1000 to 2000.
\<close>

theorem completeTask_twice_overwrites_completedAt:
  "completedAtOf exDb 100 = Some None \<and>
   status_code (fst (completeTask exDb asBob 100 1000)) = 200 \<and>
   completedAtOf (snd (completeTask exDb asBob 100 1000)) 100 = Some (Some 1000) \<and>
   status_code (fst (completeTask (snd (completeTask exDb asBob 100 1000)) asBob 100 2000)) = 200 \<and>
   completedAtOf (snd (completeTask (snd (completeTask exDb asBob 100 1000)) asBob 100 2000)) 100
     = Some (Some 2000)"
  by (simp add: completeTask_def completedAtOf_def taskSave_def taskPreSave_def validateTask_def
      taskStatuses_def taskPriorities_def Let_def ex_defs)




text \<open>
  C6. For an existing task, deleteTask answers 403 exactly when the caller is neither the
  creator nor a global admin (so an assignee who is not the creator cannot delete), and
  updateTask answers 403 exactly when the caller is none of creator, assignee and global
  admin; a caller who is none of the three gets 403 from both.
\<close>

theorem task_forbidden_iff:
  assumes "map_of (tasks d) tid = Some t"
  shows "(status_code (fst (deleteTask d c tid)) = 403 \<longleftrightarrow>
            task_createdBy t \<noteq> caller_id c \<and> caller_role c \<noteq> ''admin'') \<and>
         (status_code (fst (updateTask d c tid body)) = 403 \<longleftrightarrow>
            task_createdBy t \<noteq> caller_id c \<and> task_assignedTo t \<noteq> Some (caller_id c) \<and>
            caller_role c \<noteq> ''admin'') \<and>
         (task_createdBy t \<noteq> caller_id c \<and> task_assignedTo t \<noteq> Some (caller_id c) \<and>
          caller_role c \<noteq> ''admin'' \<longrightarrow>
            deleteTask d c tid = (Failure 403 ''Not authorized to delete this task'', d) \<and>
            updateTask d c tid body = (Failure 403 ''Not authorized to update this task'', d))"
  using assms by (simp add: deleteTask_def updateTask_def Let_def)

theorem task_forbidden_iff_witness:
  "map_of (tasks exDb) 100 = Some exTask \<and>
   status_code (fst (deleteTask exDb asBob 100)) = 403 \<and>
   status_code (fst (updateTask exDb asBob 100 emptyBody)) \<noteq> 403 \<and>
   status_code (fst (deleteTask exDb asAlice 100)) \<noteq> 403 \<and>
   deleteTask exDb asCarol 100 = (Failure 403 ''Not authorized to delete this task'', exDb) \<and>
   updateTask exDb asCarol 100 emptyBody =
     (Failure 403 ''Not authorized to update this task'', exDb)"
  using task_forbidden_iff[OF exDb_task, of asBob emptyBody]
    task_forbidden_iff[OF exDb_task, of asCarol emptyBody]
    task_forbidden_iff[OF exDb_task, of asAlice emptyBody]
  by (simp add: exDb_task exTask_def asBob_def asCarol_def asAlice_def)

text \<open>
  C10. getTask never looks at the caller: for an existing task it answers 200 with the task
  and its populated comments and attachments, for a missing one 404; it never answers 403,
  and two callers get the same response.
\<close>

theorem getTask_no_authorization:
  "(\<forall>t. map_of (tasks d) tid = Some t \<longrightarrow>
      (\<exists>v. getTask d c tid = Success 200 v \<and> tview_id v = tid \<and> tview_task v = t \<and>
           detail_comments v = populateComments d (task_comments t) \<and>
           detail_attachments v = populateAttachments d (task_attachments t))) \<and>
   (map_of (tasks d) tid = None \<longrightarrow> getTask d c tid = Failure 404 ''Task not found'') \<and>
   status_code (getTask d c tid) \<noteq> 403 \<and>
   getTask d c' tid = getTask d c tid"
  by (auto simp: getTask_def populateTask_def taskView.defs taskDetail.defs split: option.splits)


theorem getTask_no_authorization_witness:
  "map_of (tasks exDb) 100 = Some exTask \<and> task_createdBy exTask \<noteq> caller_id asCarol \<and>
   task_assignedTo exTask \<noteq> Some (caller_id asCarol) \<and> caller_role asCarol \<noteq> ''admin'' \<and>
   status_code (getTask exDb asCarol 100) = 200 \<and>
   map_option tview_task (dataOf (getTask exDb asCarol 100)) = Some exTask \<and>
   map_option detail_comments (dataOf (getTask exDb asCarol 100)) =
     Some [(200, exComment, Some \<lparr>ref_id = 2, ref_name = ''Bob'', ref_email = ''bob@example.com''\<rparr>)] \<and>
   map_option detail_attachments (dataOf (getTask exDb asCarol 100)) =
     Some [(300, exAttachment, Some \<lparr>ref_id = 2, ref_name = ''Bob'', ref_email = ''bob@example.com''\<rparr>)] \<and>
   map_of (tasks exDb) 999 = None \<and>
   getTask exDb asCarol 999 = Failure 404 ''Task not found''"
proof -
  have n: "map_of (tasks exDb) 999 = None" by (simp add: exDb_def)
  have pc: "populateComments exDb (task_comments exTask) =
     [(200, exComment, Some \<lparr>ref_id = 2, ref_name = ''Bob'', ref_email = ''bob@example.com''\<rparr>)]"
    by (simp add: populateComments_def populateUser_def List.map_filter_def exDb_def exTask_def
        exComment_def bob_def)
  have pa: "populateAttachments exDb (task_attachments exTask) =
     [(300, exAttachment, Some \<lparr>ref_id = 2, ref_name = ''Bob'', ref_email = ''bob@example.com''\<rparr>)]"
    by (simp add: populateAttachments_def populateUser_def List.map_filter_def exDb_def exTask_def
        exAttachment_def bob_def)
  have who: "task_createdBy exTask \<noteq> caller_id asCarol \<and>
   task_assignedTo exTask \<noteq> Some (caller_id asCarol) \<and> caller_role asCarol \<noteq> ''admin''"
    by (simp add: exTask_def asCarol_def)
  from getTask_no_authorization[of exDb 100 asCarol asCarol] exDb_task
  obtain v where v: "getTask exDb asCarol 100 = Success 200 v" "tview_task v = exTask"
      "detail_comments v = populateComments exDb (task_comments exTask)"
      "detail_attachments v = populateAttachments exDb (task_attachments exTask)"
    by blast
  from getTask_no_authorization[of exDb 999 asCarol asCarol] n
  have "getTask exDb asCarol 999 = Failure 404 ''Task not found''" by blast
  with v exDb_task n pc pa who show ?thesis by simp
qed

subsection \<open>Listing\<close>



















section \<open>Properties of login\<close>

text \<open>
  C7. When email and password are supplied, the two ways a login can fail give the same
  response: no user has the email, or the user's password does not match; both are
  status 401 with the message \<open>Invalid credentials\<close>, and no other failure response
  exists for such a request.
\<close>

theorem login_failures_uniform:
  assumes "truthy (login_email body) = Some e" and "truthy (login_password body) = Some p"
  shows "(find (\<lambda>iu. user_email (snd iu) = e) (users d) = None \<longrightarrow>
            login cmp tok d body = Failure 401 ''Invalid credentials'') \<and>
         (\<forall>i u. find (\<lambda>iu. user_email (snd iu) = e) (users d) = Some (i, u) \<and> \<not> cmp u p \<longrightarrow>
            login cmp tok d body = Failure 401 ''Invalid credentials'') \<and>
         (\<forall>n m. login cmp tok d body = Failure n m \<longrightarrow> n = 401 \<and> m = ''Invalid credentials'')"
  using assms by (auto simp: login_def split: option.splits)



theorem login_failures_uniform_witness:
  "truthy (login_email unknownLogin) = Some ''zed@example.com'' \<and>
   truthy (login_password unknownLogin) = Some ''b'' \<and>
   find (\<lambda>iu. user_email (snd iu) = ''zed@example.com'') (users exDb) = None \<and>
   truthy (login_email wrongLogin) = Some ''bob@example.com'' \<and>
   truthy (login_password wrongLogin) = Some ''x'' \<and>
   find (\<lambda>iu. user_email (snd iu) = ''bob@example.com'') (users exDb) = Some (2, bob) \<and>
   \<not> exCompare bob ''x'' \<and>
   login exCompare exToken exDb unknownLogin = Failure 401 ''Invalid credentials'' \<and>
   login exCompare exToken exDb wrongLogin = login exCompare exToken exDb unknownLogin"
proof -
  have u: "truthy (login_email unknownLogin) = Some ''zed@example.com''"
     "truthy (login_password unknownLogin) = Some ''b''"
    by (simp_all add: truthy_def unknownLogin_def)
  have w: "truthy (login_email wrongLogin) = Some ''bob@example.com''"
     "truthy (login_password wrongLogin) = Some ''x''"
    by (simp_all add: truthy_def wrongLogin_def)
  have fu: "find (\<lambda>iu. user_email (snd iu) = ''zed@example.com'') (users exDb) = None"
    by (simp add: ex_defs)
  have fw: "find (\<lambda>iu. user_email (snd iu) = ''bob@example.com'') (users exDb) = Some (2, bob)"
    by (simp add: exDb_def alice_def) (simp add: bob_def)
  have nc: "\<not> exCompare bob ''x''"
    by (simp add: exCompare_def bob_def)
  from login_failures_uniform[OF u, of exDb exCompare exToken] fu
  have a: "login exCompare exToken exDb unknownLogin = Failure 401 ''Invalid credentials''"
    by blast
  from login_failures_uniform[OF w, of exDb exCompare exToken] fw nc
  have b: "login exCompare exToken exDb wrongLogin = Failure 401 ''Invalid credentials''"
    by blast
  from a b u w fu fw nc show ?thesis by simp
qed

end
